theory Spec2Isabelle
  imports Complex_Main "HOL-Library.Sublist"
begin

section \<open>Exceptions\<close>

text \<open>
  Python exceptions as values. \<open>AssertionError\<close> is what \<open>np.testing.assert_equal\<close> and
  the \<open>assert\<close> statement raise; \<open>ImportError n m\<close> is what \<open>from m import n\<close> raises
  when module \<open>m\<close> has no attribute \<open>n\<close>; \<open>Raised e\<close> is any exception \<open>e\<close> raised
  inside a library or submodule whose code is not part of the two files.
\<close>

datatype 'e exn = AssertionError | ImportError string "string list" | Raised 'e

section \<open>The package initializer \<open>aeon/forecasting/online_learning/__init__.py\<close>\<close>

text \<open>
  A module namespace maps names to values. The initializer binds string literals (the
  docstring), lists of string literals (\<open>__author__\<close>, \<open>__all__\<close>), submodules (the import
  system binds an imported submodule in its parent package) and objects taken from
  submodules. Dotted module names are lists of components.
\<close>

datatype 'o pyval = Str string | StrList "string list" | Module "string list" | Obj 'o

type_synonym 'o namespace = "string \<rightharpoonup> 'o pyval"

text \<open>
  The submodules \<open>_online_ensemble\<close> and \<open>_prediction_weighted_ensembler\<close> are not among
  the two files, so importing is a parameter: an importer maps a module name to the
  exception that executing the module raises, or to the attributes the module defines.
\<close>

type_synonym ('e, 'o) importer = "string list \<Rightarrow> 'e exn + (string \<rightharpoonup> 'o)"

definition package :: "string list" where
  "package = [''aeon'', ''forecasting'', ''online_learning'']"

definition online_ensemble :: "string list" where
  "online_ensemble = package @ [''_online_ensemble'']"

definition prediction_weighted_ensembler :: "string list" where
  "prediction_weighted_ensembler = package @ [''_prediction_weighted_ensembler'']"

text \<open>
  \<open>from m import n1, n2, ...\<close>: each name is looked up in the module and stored in the
  importing namespace, in order; a missing name raises \<open>ImportError\<close>.
\<close>

fun import_names ::
  "string list \<Rightarrow> (string \<rightharpoonup> 'o) \<Rightarrow> string list \<Rightarrow> 'o namespace \<Rightarrow> 'e exn + 'o namespace"
where
  "import_names m attrs [] ns = Inr ns"
| "import_names m attrs (n # names) ns =
     (case attrs n of
        None \<Rightarrow> Inl (ImportError n m)
      | Some v \<Rightarrow> import_names m attrs names (ns(n \<mapsto> Obj v)))"

text \<open>
  The module is imported first (its exception propagates); a submodule of the package
  being initialised is bound under its last component in the package namespace; then the
  names are bound.
\<close>

definition import_from ::
  "('e, 'o) importer \<Rightarrow> string list \<Rightarrow> string list \<Rightarrow> 'o namespace \<Rightarrow> 'e exn + 'o namespace"
where
  "import_from imp m names ns =
     (case imp m of
        Inl e \<Rightarrow> Inl e
      | Inr attrs \<Rightarrow>
          import_names m attrs names
            (if m \<noteq> [] \<and> butlast m = package then ns(last m \<mapsto> Module m) else ns))"

text \<open>
  The initializer, statement by statement: the docstring (line 4), \<open>__author__\<close> (line 6),
  \<open>__all__\<close> (lines 8-12), and the two \<open>from ... import ...\<close> statements (lines 14-18).
\<close>

definition online_learning_init :: "('e, 'o) importer \<Rightarrow> 'o namespace \<Rightarrow> 'e exn + 'o namespace"
where
  "online_learning_init imp ns0 =
     (let ns1 = ns0(''__doc__'' \<mapsto>
                  Str ''Implments algorithms for creating online ensembles of forecasters.'');
          ns2 = ns1(''__author__'' \<mapsto> StrList [''William Zheng'']);
          ns3 = ns2(''__all__'' \<mapsto>
                  StrList [''NormalHedgeEnsemble'', ''NNLSEnsemble'', ''OnlineEnsembleForecaster''])
      in case import_from imp online_ensemble [''OnlineEnsembleForecaster''] ns3 of
           Inl e \<Rightarrow> Inl e
         | Inr ns4 \<Rightarrow>
             import_from imp prediction_weighted_ensembler
               [''NNLSEnsemble'', ''NormalHedgeEnsemble''] ns4)"

text \<open>An importer for concrete runs: the two submodules define the three names.\<close>

definition sample_importer :: "(unit, nat) importer" where
  "sample_importer m =
     (if m = online_ensemble then Inr [''OnlineEnsembleForecaster'' \<mapsto> 1]
      else if m = prediction_weighted_ensembler
        then Inr [''NNLSEnsemble'' \<mapsto> 2, ''NormalHedgeEnsemble'' \<mapsto> 3]
      else Inl (Raised ()))"



section \<open>The test \<open>test_MultiRocketMultivariate.py\<close>\<close>

text \<open>
  The test calls library code that is not part of the two files. Each such call is a
  field of an environment and may raise. A collection of series is a list of cases
  (\<open>len\<close> is \<open>length\<close>), labels are a list, a transformed array has a two-dimensional
  \<open>shape\<close>, and estimator objects are opaque; \<open>fit\<close> returns the updated object.
\<close>

record ('e, 's, 'l, 'm, 'o) env =
  load_basic_motions :: "string \<Rightarrow> bool \<Rightarrow> 'e exn + ('s list \<times> 'l list)"
  MultiRocketMultivariate :: "int \<Rightarrow> 'e exn + 'o"
  multirocket_fit :: "'o \<Rightarrow> 's list \<Rightarrow> 'e exn + 'o"
  multirocket_transform :: "'o \<Rightarrow> 's list \<Rightarrow> 'e exn + 'm"
  shape :: "'m \<Rightarrow> nat \<times> nat"
  StandardScaler :: "bool \<Rightarrow> 'e exn + 'o"
  logspace :: "int \<Rightarrow> int \<Rightarrow> nat \<Rightarrow> 'e exn + 'o"
  RidgeClassifierCV :: "'o \<Rightarrow> 'e exn + 'o"
  make_pipeline :: "'o \<Rightarrow> 'o \<Rightarrow> 'e exn + 'o"
  classifier_fit :: "'o \<Rightarrow> 'm \<Rightarrow> 'l list \<Rightarrow> 'e exn + 'o"
  classifier_predict :: "'o \<Rightarrow> 'm \<Rightarrow> 'e exn + 'l list"
  accuracy_score :: "'l list \<Rightarrow> 'l list \<Rightarrow> 'e exn + rat"

text \<open>The external calls of the test, in source order (lines 16 to 48).\<close>

datatype call =
    Load_train | New_multirocket | Fit_multirocket | Transform_train | Assert_shape_train
  | New_scaler | Logspace | New_ridge | Make_pipeline | Fit_classifier
  | Load_test | Transform_test | Assert_shape_test | Predict | Accuracy_score

definition call_order :: "call list" where
  "call_order =
     [Load_train, New_multirocket, Fit_multirocket, Transform_train, Assert_shape_train,
      New_scaler, Logspace, New_ridge, Make_pipeline, Fit_classifier,
      Load_test, Transform_test, Assert_shape_test, Predict, Accuracy_score]"

text \<open>
  A run threads the log of the external calls made so far, each with the exception it
  raised, if any. An exception ends the run: nothing in the test catches one.
\<close>

type_synonym 'e log = "(call \<times> 'e exn option) list"

type_synonym ('e, 'a) run = "'e log \<Rightarrow> 'e log \<times> ('e exn + 'a)"

definition do_call :: "call \<Rightarrow> 'e exn + 'a \<Rightarrow> ('e, 'a) run" where
  "do_call c r lg =
     (case r of
        Inl e \<Rightarrow> (lg @ [(c, Some e)], Inl e)
      | Inr a \<Rightarrow> (lg @ [(c, None)], Inr a))"

definition and_then :: "('e, 'a) run \<Rightarrow> ('a \<Rightarrow> ('e, 'b) run) \<Rightarrow> ('e, 'b) run" where
  "and_then m f lg =
     (case m lg of
        (lg', Inl e) \<Rightarrow> (lg', Inl e)
      | (lg', Inr a) \<Rightarrow> f a lg')"

definition raise :: "'e exn \<Rightarrow> ('e, 'a) run" where
  "raise e lg = (lg, Inl e)"

definition succeed :: "'a \<Rightarrow> ('e, 'a) run" where
  "succeed a lg = (lg, Inr a)"

text \<open>\<open>np.testing.assert_equal(actual, desired)\<close> on two shape tuples.\<close>

definition assert_equal :: "nat \<times> nat \<Rightarrow> nat \<times> nat \<Rightarrow> 'e exn + unit" where
  "assert_equal actual desired = (if actual = desired then Inr () else Inl AssertionError)"

text \<open>The literal \<open>49_728\<close> of lines 27 and 44.\<close>

definition asserted_n_features :: nat where
  "asserted_n_features = 49728"

definition test_multirocket_multivariate_on_basic_motions ::
  "('e, 's, 'l, 'm, 'o) env \<Rightarrow> 'e log \<times> ('e exn + unit)"
where
  "test_multirocket_multivariate_on_basic_motions env =
    and_then (do_call Load_train (load_basic_motions env ''train'' True))
      (\<lambda>(X_training, Y_training).
    and_then (do_call New_multirocket (MultiRocketMultivariate env 0))
      (\<lambda>multirocket0.
    and_then (do_call Fit_multirocket (multirocket_fit env multirocket0 X_training))
      (\<lambda>multirocket.
    and_then (do_call Transform_train (multirocket_transform env multirocket X_training))
      (\<lambda>X_training_transform.
    and_then (do_call Assert_shape_train
        (assert_equal (shape env X_training_transform)
           (length X_training, asserted_n_features)))
      (\<lambda>_.
    and_then (do_call New_scaler (StandardScaler env False))
      (\<lambda>scaler.
    and_then (do_call Logspace (logspace env (- 3) 3 10))
      (\<lambda>alphas.
    and_then (do_call New_ridge (RidgeClassifierCV env alphas))
      (\<lambda>ridge.
    and_then (do_call Make_pipeline (make_pipeline env scaler ridge))
      (\<lambda>classifier0.
    and_then (do_call Fit_classifier
        (classifier_fit env classifier0 X_training_transform Y_training))
      (\<lambda>classifier.
    and_then (do_call Load_test (load_basic_motions env ''test'' True))
      (\<lambda>(X_test, Y_test).
    and_then (do_call Transform_test (multirocket_transform env multirocket X_test))
      (\<lambda>X_test_transform.
    and_then (do_call Assert_shape_test
        (assert_equal (shape env X_test_transform) (length X_test, asserted_n_features)))
      (\<lambda>_.
    and_then (do_call Predict (classifier_predict env classifier X_test_transform))
      (\<lambda>predictions.
    and_then (do_call Accuracy_score (accuracy_score env predictions Y_test))
      (\<lambda>accuracy.
    if accuracy = 1 then succeed () else raise AssertionError))))))))))))))) []"

section \<open>Library behaviour taken from the specification\<close>

text \<open>
  Modelled from the spec: the transform \<open>MultiRocketMultivariate\<close> of
  \<open>aeon.transformations.collection.rocket\<close> is not among the files; only its test is.
  The spec gives the contract \<open>transform(X) -> array of shape (n_samples, n_features)\<close>
  and calls the feature count "a function of kernel count and pooling branches"; the
  test's comment gives it as the nearest multiple of \<open>4*84\<close> below \<open>2*4*6_250\<close>.
\<close>

definition multirocket_n_features :: nat where
  "multirocket_n_features = (4 * 84) * ((2 * 4 * 6250 - 1) div (4 * 84))"

record 'a ndarray =
  n_rows :: nat
  n_cols :: nat
  cell :: "nat \<Rightarrow> nat \<Rightarrow> 'a"

definition ndarray_shape :: "'a ndarray \<Rightarrow> nat \<times> nat" where
  "ndarray_shape a = (n_rows a, n_cols a)"

text \<open>
  Modelled from the spec: one row per case and one column per feature. The kernels that
  \<open>fit\<close> generates and the feature values they give are parameters (\<open>feature k x j\<close> is
  feature \<open>j\<close> of case \<open>x\<close> under the fitted kernels \<open>k\<close>).
\<close>

definition multirocket_transform_spec ::
  "('k \<Rightarrow> 's \<Rightarrow> nat \<Rightarrow> 'a) \<Rightarrow> 'k \<Rightarrow> 's list \<Rightarrow> 'a ndarray"
where
  "multirocket_transform_spec feature k X =
     \<lparr>n_rows = length X, n_cols = multirocket_n_features,
      cell = (\<lambda>i j. feature k (X ! i) j)\<rparr>"

text \<open>
  Modelled from the spec: \<open>accuracy_score\<close> of \<open>sklearn.metrics\<close> is not among the
  files. Accuracy is the fraction of index positions where two equal-length label
  sequences agree; there is no fraction for sequences of different lengths or without
  positions.
\<close>

definition agreements :: "'l list \<Rightarrow> 'l list \<Rightarrow> nat" where
  "agreements p y = length (filter (\<lambda>(a, b). a = b) (zip p y))"

definition accuracy :: "'l list \<Rightarrow> 'l list \<Rightarrow> rat option" where
  "accuracy p y =
     (if length p = length y \<and> p \<noteq> []
      then Some (of_nat (agreements p y) / of_nat (length p))
      else None)"

section \<open>Environments for concrete runs\<close>

text \<open>
  Two training cases and three test cases; a transformed array is represented by its
  shape. The parameters choose the column counts of the two transformed arrays, whether
  fitting the classifier succeeds, and the predicted labels.
\<close>

definition sample_env ::
  "nat \<Rightarrow> nat \<Rightarrow> bool \<Rightarrow> nat list \<Rightarrow> (unit, nat, nat, nat \<times> nat, nat) env"
where
  "sample_env train_cols test_cols fit_ok preds =
     \<lparr>load_basic_motions =
        (\<lambda>split return_X_y.
           if split = ''train'' then Inr ([0, 1], [0, 1]) else Inr ([2, 3, 4], [1, 0, 1])),
      MultiRocketMultivariate = (\<lambda>random_state. Inr 0),
      multirocket_fit = (\<lambda>r X. Inr 1),
      multirocket_transform =
        (\<lambda>r X. Inr (length X, if X = [0, 1] then train_cols else test_cols)),
      shape = (\<lambda>m. m),
      StandardScaler = (\<lambda>with_mean. Inr 2),
      logspace = (\<lambda>start stop num. Inr 3),
      RidgeClassifierCV = (\<lambda>alphas. Inr 4),
      make_pipeline = (\<lambda>scaler ridge. Inr 5),
      classifier_fit = (\<lambda>c M Y. if fit_ok then Inr 6 else Inl (Raised ())),
      classifier_predict = (\<lambda>c M. Inr preds),
      accuracy_score =
        (\<lambda>p y. case accuracy p y of None \<Rightarrow> Inl (Raised ()) | Some a \<Rightarrow> Inr a)\<rparr>"

section \<open>Properties of the initializer\<close>

text \<open>Case analysis on membership in a finite set of names.\<close>

lemma member3E:
  assumes "n \<in> {a, b, c}"
  obtains "n = a" | "n = b" | "n = c"
  using assms by auto

lemma member5E:
  assumes "n \<in> {a, b, c, d, e}"
  obtains "n = a" | "n = b" | "n = c" | "n = d" | "n = e"
  using assms by auto

text \<open>A successful run of the initializer, written out as the namespace it leaves.\<close>

lemma init_result:
  assumes run: "online_learning_init imp ns0 = Inr ns"
  shows "\<exists>a1 a2 c1 c2 c3.
           imp online_ensemble = Inr a1 \<and> a1 ''OnlineEnsembleForecaster'' = Some c1 \<and>
           imp prediction_weighted_ensembler = Inr a2 \<and>
           a2 ''NNLSEnsemble'' = Some c2 \<and> a2 ''NormalHedgeEnsemble'' = Some c3 \<and>
           ns = ns0(''__doc__'' \<mapsto>
                     Str ''Implments algorithms for creating online ensembles of forecasters.'',
                   ''__author__'' \<mapsto> StrList [''William Zheng''],
                   ''__all__'' \<mapsto>
                     StrList [''NormalHedgeEnsemble'', ''NNLSEnsemble'', ''OnlineEnsembleForecaster''],
                   ''_online_ensemble'' \<mapsto> Module online_ensemble,
                   ''OnlineEnsembleForecaster'' \<mapsto> Obj c1,
                   ''_prediction_weighted_ensembler'' \<mapsto> Module prediction_weighted_ensembler,
                   ''NNLSEnsemble'' \<mapsto> Obj c2,
                   ''NormalHedgeEnsemble'' \<mapsto> Obj c3)"
  using run
  by (simp add: online_learning_init_def import_from_def online_ensemble_def
      prediction_weighted_ensembler_def package_def Let_def split: sum.splits option.splits)

lemma sample_importer_run: "\<exists>ns. online_learning_init sample_importer Map.empty = Inr ns"
  by (simp add: online_learning_init_def import_from_def online_ensemble_def
      prediction_weighted_ensembler_def package_def Let_def sample_importer_def)

text \<open>
  Claim C1. When the submodule \<open>_online_ensemble\<close> defines \<open>OnlineEnsembleForecaster\<close> and
  the submodule \<open>_prediction_weighted_ensembler\<close> defines \<open>NNLSEnsemble\<close> and
  \<open>NormalHedgeEnsemble\<close>, executing the initializer succeeds and binds each of the three
  names, at the package path, to the object of that name from that submodule; the names
  bound to objects are exactly these three (the namespace held no object before), and
  \<open>__all__\<close> lists exactly the three names.
\<close>

theorem online_learning_init_exports:
  assumes "imp online_ensemble = Inr a1"
    and "a1 ''OnlineEnsembleForecaster'' = Some c1"
    and "imp prediction_weighted_ensembler = Inr a2"
    and "a2 ''NNLSEnsemble'' = Some c2"
    and "a2 ''NormalHedgeEnsemble'' = Some c3"
    and "\<forall>n v. ns0 n \<noteq> Some (Obj v)"
  shows "\<exists>ns. online_learning_init imp ns0 = Inr ns \<and>
           ns ''OnlineEnsembleForecaster'' = Some (Obj c1) \<and>
           ns ''NNLSEnsemble'' = Some (Obj c2) \<and>
           ns ''NormalHedgeEnsemble'' = Some (Obj c3) \<and>
           {n. \<exists>v. ns n = Some (Obj v)} =
             {''NormalHedgeEnsemble'', ''NNLSEnsemble'', ''OnlineEnsembleForecaster''} \<and>
           (\<exists>names. ns ''__all__'' = Some (StrList names) \<and>
              set names = {''NormalHedgeEnsemble'', ''NNLSEnsemble'', ''OnlineEnsembleForecaster''})"
  using assms
  apply (simp add: online_learning_init_def import_from_def online_ensemble_def
      prediction_weighted_ensembler_def package_def Let_def)
  apply (auto split: if_splits)
  done

theorem online_learning_init_exports_witness:
  "sample_importer online_ensemble = Inr [''OnlineEnsembleForecaster'' \<mapsto> 1] \<and>
   sample_importer prediction_weighted_ensembler =
     Inr [''NNLSEnsemble'' \<mapsto> 2, ''NormalHedgeEnsemble'' \<mapsto> 3] \<and>
   (\<exists>ns. online_learning_init sample_importer Map.empty = Inr ns \<and>
      ns ''OnlineEnsembleForecaster'' = Some (Obj 1) \<and>
      ns ''NNLSEnsemble'' = Some (Obj 2) \<and>
      ns ''NormalHedgeEnsemble'' = Some (Obj 3) \<and>
      {n. \<exists>v. ns n = Some (Obj v)} =
        {''NormalHedgeEnsemble'', ''NNLSEnsemble'', ''OnlineEnsembleForecaster''} \<and>
      (\<exists>names. ns ''__all__'' = Some (StrList names) \<and>
         set names = {''NormalHedgeEnsemble'', ''NNLSEnsemble'', ''OnlineEnsembleForecaster''}))"
proof -
  have h1: "sample_importer online_ensemble = Inr [''OnlineEnsembleForecaster'' \<mapsto> 1]"
    by (simp add: sample_importer_def)
  have h2: "sample_importer prediction_weighted_ensembler =
              Inr [''NNLSEnsemble'' \<mapsto> 2, ''NormalHedgeEnsemble'' \<mapsto> 3]"
    by (simp add: sample_importer_def online_ensemble_def prediction_weighted_ensembler_def)
  have h3: "[''OnlineEnsembleForecaster'' \<mapsto> 1::nat] ''OnlineEnsembleForecaster'' = Some 1"
    by simp
  have h4: "[''NNLSEnsemble'' \<mapsto> 2::nat, ''NormalHedgeEnsemble'' \<mapsto> 3] ''NNLSEnsemble'' = Some 2"
    by simp
  have h5: "[''NNLSEnsemble'' \<mapsto> 2::nat, ''NormalHedgeEnsemble'' \<mapsto> 3] ''NormalHedgeEnsemble''
              = Some 3"
    by simp
  have h6: "\<forall>n v. (Map.empty :: nat namespace) n \<noteq> Some (Obj v)"
    by simp
  show ?thesis
    by (intro conjI) (rule h1, rule h2, rule online_learning_init_exports [OF h1 h3 h2 h4 h5 h6])
qed

text \<open>
  Claim C8. The initializer is re-export glue: after a successful run \<open>__author__\<close> and
  \<open>__all__\<close> hold their literals; every other name apart from the docstring's \<open>__doc__\<close>
  is either untouched or bound by one of the two imports (the submodule itself, or an
  attribute the submodule defines); and every name listed in \<open>__all__\<close> is bound to an
  attribute of one of the two submodules.
\<close>

theorem online_learning_init_reexport_only:
  assumes run: "online_learning_init imp ns0 = Inr ns"
  shows "ns ''__author__'' = Some (StrList [''William Zheng'']) \<and>
         ns ''__all__'' =
           Some (StrList [''NormalHedgeEnsemble'', ''NNLSEnsemble'', ''OnlineEnsembleForecaster'']) \<and>
         (\<forall>n. n \<notin> {''__doc__'', ''__author__'', ''__all__''} \<longrightarrow>
            ns n = ns0 n \<or>
            (\<exists>m attrs. m \<in> {online_ensemble, prediction_weighted_ensembler} \<and>
               imp m = Inr attrs \<and>
               (n = last m \<and> ns n = Some (Module m) \<or>
                (\<exists>v. attrs n = Some v \<and> ns n = Some (Obj v))))) \<and>
         (\<forall>n \<in> {''NormalHedgeEnsemble'', ''NNLSEnsemble'', ''OnlineEnsembleForecaster''}.
            \<exists>m attrs v. m \<in> {online_ensemble, prediction_weighted_ensembler} \<and>
               imp m = Inr attrs \<and> attrs n = Some v \<and> ns n = Some (Obj v))"
proof -
  from init_result [OF run] obtain a1 a2 c1 c2 c3 where
    i1: "imp online_ensemble = Inr a1" and d1: "a1 ''OnlineEnsembleForecaster'' = Some c1" and
    i2: "imp prediction_weighted_ensembler = Inr a2" and
    d2: "a2 ''NNLSEnsemble'' = Some c2" and d3: "a2 ''NormalHedgeEnsemble'' = Some c3" and
    ns: "ns = ns0(''__doc__'' \<mapsto>
                     Str ''Implments algorithms for creating online ensembles of forecasters.'',
                   ''__author__'' \<mapsto> StrList [''William Zheng''],
                   ''__all__'' \<mapsto>
                     StrList [''NormalHedgeEnsemble'', ''NNLSEnsemble'', ''OnlineEnsembleForecaster''],
                   ''_online_ensemble'' \<mapsto> Module online_ensemble,
                   ''OnlineEnsembleForecaster'' \<mapsto> Obj c1,
                   ''_prediction_weighted_ensembler'' \<mapsto> Module prediction_weighted_ensembler,
                   ''NNLSEnsemble'' \<mapsto> Obj c2,
                   ''NormalHedgeEnsemble'' \<mapsto> Obj c3)"
    by blast
  have oef: "ns ''OnlineEnsembleForecaster'' = Some (Obj c1)" by (simp add: ns)
  have nnls: "ns ''NNLSEnsemble'' = Some (Obj c2)" by (simp add: ns)
  have nh: "ns ''NormalHedgeEnsemble'' = Some (Obj c3)" by (simp add: ns)
  have m1: "ns ''_online_ensemble'' = Some (Module online_ensemble)" by (simp add: ns)
  have m2: "ns ''_prediction_weighted_ensembler'' = Some (Module prediction_weighted_ensembler)"
    by (simp add: ns)
  have l1: "last online_ensemble = ''_online_ensemble''"
    by (simp add: online_ensemble_def)
  have l2: "last prediction_weighted_ensembler = ''_prediction_weighted_ensembler''"
    by (simp add: prediction_weighted_ensembler_def)
  have author: "ns ''__author__'' = Some (StrList [''William Zheng''])"
    by (simp add: ns)
  have all: "ns ''__all__'' =
      Some (StrList [''NormalHedgeEnsemble'', ''NNLSEnsemble'', ''OnlineEnsembleForecaster''])"
    by (simp add: ns)
  have from1: "\<exists>m attrs v. m \<in> {online_ensemble, prediction_weighted_ensembler} \<and>
      imp m = Inr attrs \<and> attrs ''OnlineEnsembleForecaster'' = Some v \<and>
      ns ''OnlineEnsembleForecaster'' = Some (Obj v)"
    by (rule exI [of _ online_ensemble], rule exI [of _ a1], rule exI [of _ c1])
      (simp add: i1 d1 oef)
  have from2: "\<exists>m attrs v. m \<in> {online_ensemble, prediction_weighted_ensembler} \<and>
      imp m = Inr attrs \<and> attrs ''NNLSEnsemble'' = Some v \<and>
      ns ''NNLSEnsemble'' = Some (Obj v)"
    by (rule exI [of _ prediction_weighted_ensembler], rule exI [of _ a2], rule exI [of _ c2])
      (simp add: i2 d2 nnls)
  have from3: "\<exists>m attrs v. m \<in> {online_ensemble, prediction_weighted_ensembler} \<and>
      imp m = Inr attrs \<and> attrs ''NormalHedgeEnsemble'' = Some v \<and>
      ns ''NormalHedgeEnsemble'' = Some (Obj v)"
    by (rule exI [of _ prediction_weighted_ensembler], rule exI [of _ a2], rule exI [of _ c3])
      (simp add: i2 d3 nh)
  have frame: "ns n = ns0 n \<or>
          (\<exists>m attrs. m \<in> {online_ensemble, prediction_weighted_ensembler} \<and>
             imp m = Inr attrs \<and>
             (n = last m \<and> ns n = Some (Module m) \<or>
              (\<exists>v. attrs n = Some v \<and> ns n = Some (Obj v))))"
    if meta: "n \<notin> {''__doc__'', ''__author__'', ''__all__''}" for n
  proof (cases "n \<in> {''_online_ensemble'', ''OnlineEnsembleForecaster'',
                 ''_prediction_weighted_ensembler'', ''NNLSEnsemble'', ''NormalHedgeEnsemble''}")
    case False
    with meta have "ns n = ns0 n" by (simp add: ns)
    then show ?thesis by (rule disjI1)
  next
    case True
    then consider (a) "n = ''_online_ensemble''" | (b) "n = ''OnlineEnsembleForecaster''"
      | (c) "n = ''_prediction_weighted_ensembler''" | (d) "n = ''NNLSEnsemble''"
      | (e) "n = ''NormalHedgeEnsemble''"
      by (rule member5E)
    then have "\<exists>m attrs. m \<in> {online_ensemble, prediction_weighted_ensembler} \<and>
             imp m = Inr attrs \<and>
             (n = last m \<and> ns n = Some (Module m) \<or>
              (\<exists>v. attrs n = Some v \<and> ns n = Some (Obj v)))"
    proof cases
      case a
      show ?thesis
        by (rule exI [of _ online_ensemble], rule exI [of _ a1]) (simp add: a i1 m1 l1)
    next
      case b
      show ?thesis
        by (rule exI [of _ online_ensemble], rule exI [of _ a1]) (simp add: b i1 d1 oef)
    next
      case c
      show ?thesis
        by (rule exI [of _ prediction_weighted_ensembler], rule exI [of _ a2])
          (simp add: c i2 m2 l2)
    next
      case d
      show ?thesis
        by (rule exI [of _ prediction_weighted_ensembler], rule exI [of _ a2])
          (simp add: d i2 d2 nnls)
    next
      case e
      show ?thesis
        by (rule exI [of _ prediction_weighted_ensembler], rule exI [of _ a2])
          (simp add: e i2 d3 nh)
    qed
    then show ?thesis by (rule disjI2)
  qed
  show ?thesis
  proof (intro conjI)
    show "ns ''__author__'' = Some (StrList [''William Zheng''])"
      by (rule author)
    show "ns ''__all__'' =
        Some (StrList [''NormalHedgeEnsemble'', ''NNLSEnsemble'', ''OnlineEnsembleForecaster''])"
      by (rule all)
    show "\<forall>n. n \<notin> {''__doc__'', ''__author__'', ''__all__''} \<longrightarrow>
            ns n = ns0 n \<or>
            (\<exists>m attrs. m \<in> {online_ensemble, prediction_weighted_ensembler} \<and>
               imp m = Inr attrs \<and>
               (n = last m \<and> ns n = Some (Module m) \<or>
                (\<exists>v. attrs n = Some v \<and> ns n = Some (Obj v))))"
      by (rule allI, rule impI, rule frame)
    show "\<forall>n \<in> {''NormalHedgeEnsemble'', ''NNLSEnsemble'', ''OnlineEnsembleForecaster''}.
            \<exists>m attrs v. m \<in> {online_ensemble, prediction_weighted_ensembler} \<and>
               imp m = Inr attrs \<and> attrs n = Some v \<and> ns n = Some (Obj v)"
    proof (rule ballI)
      fix n :: string
      assume "n \<in> {''NormalHedgeEnsemble'', ''NNLSEnsemble'', ''OnlineEnsembleForecaster''}"
      then consider "n = ''NormalHedgeEnsemble''" | "n = ''NNLSEnsemble''"
        | "n = ''OnlineEnsembleForecaster''"
        by (rule member3E)
      then show "\<exists>m attrs v. m \<in> {online_ensemble, prediction_weighted_ensembler} \<and>
               imp m = Inr attrs \<and> attrs n = Some v \<and> ns n = Some (Obj v)"
        using from1 from2 from3 by cases simp_all
    qed
  qed
qed

theorem online_learning_init_reexport_only_witness:
  "\<exists>ns. online_learning_init sample_importer Map.empty = Inr ns \<and>
     ns ''__author__'' = Some (StrList [''William Zheng'']) \<and>
     ns ''__all__'' =
       Some (StrList [''NormalHedgeEnsemble'', ''NNLSEnsemble'', ''OnlineEnsembleForecaster'']) \<and>
     (\<forall>n \<in> {''NormalHedgeEnsemble'', ''NNLSEnsemble'', ''OnlineEnsembleForecaster''}.
        \<exists>m attrs v. m \<in> {online_ensemble, prediction_weighted_ensembler} \<and>
           sample_importer m = Inr attrs \<and> attrs n = Some v \<and> ns n = Some (Obj v))"
proof -
  from sample_importer_run obtain ns where
    run: "online_learning_init sample_importer Map.empty = Inr ns"
    by (rule exE)
  note props = online_learning_init_reexport_only [OF run]
  show ?thesis
    by (rule exI [of _ ns], intro conjI)
      (rule run, rule props [THEN conjunct1], rule props [THEN conjunct2, THEN conjunct1],
        rule props [THEN conjunct2, THEN conjunct2, THEN conjunct2])
qed

section \<open>Properties of the test\<close>

lemma and_then_do_call:
  "and_then (do_call c r) f lg =
     (case r of Inl e \<Rightarrow> (lg @ [(c, Some e)], Inl e) | Inr a \<Rightarrow> f a (lg @ [(c, None)]))"
  by (simp add: and_then_def do_call_def split: sum.splits)

subsection \<open>Concrete runs\<close>




subsection \<open>The order of the calls\<close>

lemma calls_in_order:
  "prefix (map fst (fst (test_multirocket_multivariate_on_basic_motions env))) call_order"
  unfolding test_multirocket_multivariate_on_basic_motions_def call_order_def
  by (simp add: and_then_do_call succeed_def raise_def split: sum.splits prod.splits)

lemma fit_after_train_assertion:
  "Fit_classifier \<in> fst ` set (fst (test_multirocket_multivariate_on_basic_motions env)) \<longrightarrow>
     (Assert_shape_train, None) \<in> set (fst (test_multirocket_multivariate_on_basic_motions env))"
  unfolding test_multirocket_multivariate_on_basic_motions_def
  by (simp add: and_then_do_call succeed_def raise_def split: sum.split prod.split)

lemma predict_after_test_assertion:
  "Predict \<in> fst ` set (fst (test_multirocket_multivariate_on_basic_motions env)) \<longrightarrow>
     (Assert_shape_test, None) \<in> set (fst (test_multirocket_multivariate_on_basic_motions env))"
  unfolding test_multirocket_multivariate_on_basic_motions_def
  by (simp add: and_then_do_call succeed_def raise_def split: sum.split prod.split)

lemma train_shape_guard:
  assumes "load_basic_motions env ''train'' True = Inr (X, Y)"
    and "MultiRocketMultivariate env 0 = Inr r0"
    and "multirocket_fit env r0 X = Inr r"
    and "multirocket_transform env r X = Inr M"
    and "shape env M \<noteq> (length X, 49728)"
  shows "test_multirocket_multivariate_on_basic_motions env =
     ([(Load_train, None), (New_multirocket, None), (Fit_multirocket, None),
       (Transform_train, None), (Assert_shape_train, Some AssertionError)], Inl AssertionError)"
  using assms
  by (simp add: test_multirocket_multivariate_on_basic_motions_def and_then_do_call
      assert_equal_def asserted_n_features_def)

lemma test_shape_guard:
  assumes "load_basic_motions env ''train'' True = Inr (X, Y)"
    and "MultiRocketMultivariate env 0 = Inr r0"
    and "multirocket_fit env r0 X = Inr r"
    and "multirocket_transform env r X = Inr M"
    and "shape env M = (length X, 49728)"
    and "StandardScaler env False = Inr sc"
    and "logspace env (- 3) 3 10 = Inr al"
    and "RidgeClassifierCV env al = Inr rc"
    and "make_pipeline env sc rc = Inr c0"
    and "classifier_fit env c0 M Y = Inr c"
    and "load_basic_motions env ''test'' True = Inr (Xt, Yt)"
    and "multirocket_transform env r Xt = Inr Mt"
    and "shape env Mt \<noteq> (length Xt, 49728)"
  shows "test_multirocket_multivariate_on_basic_motions env =
     ([(Load_train, None), (New_multirocket, None), (Fit_multirocket, None),
       (Transform_train, None), (Assert_shape_train, None), (New_scaler, None),
       (Logspace, None), (New_ridge, None), (Make_pipeline, None), (Fit_classifier, None),
       (Load_test, None), (Transform_test, None), (Assert_shape_test, Some AssertionError)], Inl AssertionError)"
  using assms
  by (simp add: test_multirocket_multivariate_on_basic_motions_def and_then_do_call
      assert_equal_def asserted_n_features_def)

text \<open>
  Claim C9. The calls of every run are a prefix of the source order, in which the shape
  assertion on the training data precedes the construction and fitting of the classifier
  and the shape assertion on the test data precedes \<open>predict\<close>; the classifier is fitted
  only after the first assertion has passed, and \<open>predict\<close> is called only after the
  second has. If the training transform has a shape other than \<open>(n, 49728)\<close> the run ends
  with \<open>AssertionError\<close> at that assertion, before any classifier call; if the test
  transform has, it ends at the second assertion, before \<open>predict\<close> and the accuracy.
\<close>

theorem shape_assertions_guard_classifier:
  "prefix (map fst (fst (test_multirocket_multivariate_on_basic_motions env))) call_order \<and>
   (Fit_classifier \<in> fst ` set (fst (test_multirocket_multivariate_on_basic_motions env)) \<longrightarrow>
      (Assert_shape_train, None) \<in> set (fst (test_multirocket_multivariate_on_basic_motions env))) \<and>
   (Predict \<in> fst ` set (fst (test_multirocket_multivariate_on_basic_motions env)) \<longrightarrow>
      (Assert_shape_test, None) \<in> set (fst (test_multirocket_multivariate_on_basic_motions env))) \<and>
   (load_basic_motions env ''train'' True = Inr (X, Y) \<and>
    MultiRocketMultivariate env 0 = Inr r0 \<and>
    multirocket_fit env r0 X = Inr r \<and>
    multirocket_transform env r X = Inr M \<and>
    shape env M \<noteq> (length X, 49728) \<longrightarrow>
    test_multirocket_multivariate_on_basic_motions env =
     ([(Load_train, None), (New_multirocket, None), (Fit_multirocket, None),
       (Transform_train, None), (Assert_shape_train, Some AssertionError)], Inl AssertionError)) \<and>
   (load_basic_motions env ''train'' True = Inr (X, Y) \<and>
    MultiRocketMultivariate env 0 = Inr r0 \<and>
    multirocket_fit env r0 X = Inr r \<and>
    multirocket_transform env r X = Inr M \<and>
    shape env M = (length X, 49728) \<and>
    StandardScaler env False = Inr sc \<and>
    logspace env (- 3) 3 10 = Inr al \<and>
    RidgeClassifierCV env al = Inr rc \<and>
    make_pipeline env sc rc = Inr c0 \<and>
    classifier_fit env c0 M Y = Inr c \<and>
    load_basic_motions env ''test'' True = Inr (Xt, Yt) \<and>
    multirocket_transform env r Xt = Inr Mt \<and>
    shape env Mt \<noteq> (length Xt, 49728) \<longrightarrow>
    test_multirocket_multivariate_on_basic_motions env =
     ([(Load_train, None), (New_multirocket, None), (Fit_multirocket, None),
       (Transform_train, None), (Assert_shape_train, None), (New_scaler, None),
       (Logspace, None), (New_ridge, None), (Make_pipeline, None), (Fit_classifier, None),
       (Load_test, None), (Transform_test, None), (Assert_shape_test, Some AssertionError)], Inl AssertionError))"
proof (intro conjI impI)
  show "prefix (map fst (fst (test_multirocket_multivariate_on_basic_motions env))) call_order"
    by (rule calls_in_order)
  show "(Assert_shape_train, None) \<in> set (fst (test_multirocket_multivariate_on_basic_motions env))"
    if "Fit_classifier \<in> fst ` set (fst (test_multirocket_multivariate_on_basic_motions env))"
    using that fit_after_train_assertion [of env] by (rule rev_mp)
  show "(Assert_shape_test, None) \<in> set (fst (test_multirocket_multivariate_on_basic_motions env))"
    if "Predict \<in> fst ` set (fst (test_multirocket_multivariate_on_basic_motions env))"
    using that predict_after_test_assertion [of env] by (rule rev_mp)
  show "test_multirocket_multivariate_on_basic_motions env =
     ([(Load_train, None), (New_multirocket, None), (Fit_multirocket, None),
       (Transform_train, None), (Assert_shape_train, Some AssertionError)], Inl AssertionError)"
    if "load_basic_motions env ''train'' True = Inr (X, Y) \<and>
      MultiRocketMultivariate env 0 = Inr r0 \<and>
      multirocket_fit env r0 X = Inr r \<and>
      multirocket_transform env r X = Inr M \<and>
      shape env M \<noteq> (length X, 49728)"
    using that by (intro train_shape_guard [of env X Y r0 r M]) simp_all
  show "test_multirocket_multivariate_on_basic_motions env =
     ([(Load_train, None), (New_multirocket, None), (Fit_multirocket, None),
       (Transform_train, None), (Assert_shape_train, None), (New_scaler, None),
       (Logspace, None), (New_ridge, None), (Make_pipeline, None), (Fit_classifier, None),
       (Load_test, None), (Transform_test, None), (Assert_shape_test, Some AssertionError)], Inl AssertionError)"
    if "load_basic_motions env ''train'' True = Inr (X, Y) \<and>
      MultiRocketMultivariate env 0 = Inr r0 \<and>
      multirocket_fit env r0 X = Inr r \<and>
      multirocket_transform env r X = Inr M \<and>
      shape env M = (length X, 49728) \<and>
      StandardScaler env False = Inr sc \<and>
      logspace env (- 3) 3 10 = Inr al \<and>
      RidgeClassifierCV env al = Inr rc \<and>
      make_pipeline env sc rc = Inr c0 \<and>
      classifier_fit env c0 M Y = Inr c \<and>
      load_basic_motions env ''test'' True = Inr (Xt, Yt) \<and>
      multirocket_transform env r Xt = Inr Mt \<and>
      shape env Mt \<noteq> (length Xt, 49728)"
    using that
    by (intro test_shape_guard [of env X Y r0 r M sc al rc c0 c Xt Yt Mt]) simp_all
qed

theorem shape_assertions_guard_classifier_witness:
  "test_multirocket_multivariate_on_basic_motions (sample_env 50000 49728 True [1, 0, 1]) =
     ([(Load_train, None), (New_multirocket, None), (Fit_multirocket, None),
       (Transform_train, None), (Assert_shape_train, Some AssertionError)], Inl AssertionError) \<and>
   test_multirocket_multivariate_on_basic_motions (sample_env 49728 336 True [1, 0, 1]) =
     ([(Load_train, None), (New_multirocket, None), (Fit_multirocket, None),
       (Transform_train, None), (Assert_shape_train, None), (New_scaler, None),
       (Logspace, None), (New_ridge, None), (Make_pipeline, None), (Fit_classifier, None),
       (Load_test, None), (Transform_test, None), (Assert_shape_test, Some AssertionError)], Inl AssertionError)"
proof (rule conjI)
  note g1 = shape_assertions_guard_classifier
    [where env = "sample_env 50000 49728 True [1, 0, 1]" and X = "[0, 1]" and Y = "[0, 1]"
      and ?r0.0 = 0 and r = 1 and M = "(2, 50000)",
     THEN conjunct2, THEN conjunct2, THEN conjunct2, THEN conjunct1]
  show "test_multirocket_multivariate_on_basic_motions (sample_env 50000 49728 True [1, 0, 1]) =
     ([(Load_train, None), (New_multirocket, None), (Fit_multirocket, None),
       (Transform_train, None), (Assert_shape_train, Some AssertionError)], Inl AssertionError)"
    by (rule g1 [THEN mp]) (simp add: sample_env_def)
  note g2 = shape_assertions_guard_classifier
    [where env = "sample_env 49728 336 True [1, 0, 1]" and X = "[0, 1]" and Y = "[0, 1]"
      and ?r0.0 = 0 and r = 1 and M = "(2, 49728)" and sc = 2 and al = 3 and rc = 4
      and ?c0.0 = 5 and c = 6 and Xt = "[2, 3, 4]" and Yt = "[1, 0, 1]" and Mt = "(3, 336)",
     THEN conjunct2, THEN conjunct2, THEN conjunct2, THEN conjunct2]
  show "test_multirocket_multivariate_on_basic_motions (sample_env 49728 336 True [1, 0, 1]) =
     ([(Load_train, None), (New_multirocket, None), (Fit_multirocket, None),
       (Transform_train, None), (Assert_shape_train, None), (New_scaler, None),
       (Logspace, None), (New_ridge, None), (Make_pipeline, None), (Fit_classifier, None),
       (Load_test, None), (Transform_test, None), (Assert_shape_test, Some AssertionError)], Inl AssertionError)"
    by (rule g2 [THEN mp]) (simp add: sample_env_def)
qed

subsection \<open>Failures\<close>















section \<open>Properties of the library behaviour taken from the specification\<close>

lemma n_features_value: "multirocket_n_features = 49728"
  by (simp add: multirocket_n_features_def)

text \<open>
  Claim C2. A transform constructed with \<open>random_state = 0\<close> and fitted on the training
  split (\<open>kernels 0 X_training\<close> is what fitting leaves) gives, applied to that split, an
  array of shape \<open>(n_train, 49728)\<close>, so the test's first shape assertion passes.
\<close>

theorem multirocket_train_shape:
  "ndarray_shape (multirocket_transform_spec feature (kernels (0::int) X_training) X_training) =
     (length X_training, 49728) \<and>
   assert_equal
     (ndarray_shape (multirocket_transform_spec feature (kernels 0 X_training) X_training))
     (length X_training, asserted_n_features) = Inr ()"
  by (simp add: ndarray_shape_def multirocket_transform_spec_def n_features_value
      assert_equal_def asserted_n_features_def)

text \<open>
  Claim C3. The same fitted transform, not fitted again, gives on the test split an array
  of shape \<open>(n_test, 49728)\<close>; the feature count is the one of the training split.
\<close>

theorem multirocket_test_shape:
  "ndarray_shape (multirocket_transform_spec feature (kernels (0::int) X_training) X_test) =
     (length X_test, 49728) \<and>
   snd (ndarray_shape (multirocket_transform_spec feature (kernels 0 X_training) X_test)) =
   snd (ndarray_shape (multirocket_transform_spec feature (kernels 0 X_training) X_training))"
  by (simp add: ndarray_shape_def multirocket_transform_spec_def n_features_value)

text \<open>
  Claim C6. The feature count that the test asserts is a multiple of \<open>336 = 4 * 84\<close>,
  namely \<open>336 * 148\<close>, it is below \<open>50000 = 2 * 4 * 6250\<close>, and every multiple of \<open>336\<close>
  below \<open>50000\<close> is at most it.
\<close>

theorem asserted_n_features_characterised:
  "(336::nat) dvd asserted_n_features \<and> asserted_n_features = 336 * 148 \<and>
   (336::nat) = 4 * 84 \<and> (50000::nat) = 2 * 4 * 6250 \<and> asserted_n_features < 50000 \<and>
   (336 dvd m \<and> m < 50000 \<longrightarrow> m \<le> asserted_n_features)"
proof -
  have "m \<le> 49728" if d: "336 dvd m" and lt: "m < 50000"
  proof -
    from d obtain k where k: "m = 336 * k" by (rule dvdE)
    with lt have "k \<le> 148" by simp
    with k show ?thesis by simp
  qed
  then show ?thesis by (simp add: asserted_n_features_def)
qed

theorem asserted_n_features_characterised_witness:
  "(336::nat) dvd 49392 \<and> (49392::nat) < 50000 \<and> 49392 \<le> asserted_n_features"
proof -
  have h: "(336::nat) dvd 49392 \<and> (49392::nat) < 50000"
    by simp
  from asserted_n_features_characterised [of 49392] have
    "(336::nat) dvd 49392 \<and> (49392::nat) < 50000 \<longrightarrow> 49392 \<le> asserted_n_features"
    by (elim conjE)
  with h show ?thesis by simp
qed

lemma agreements_commute: "agreements p y = agreements y p"
proof -
  have "zip y p = map (\<lambda>(a, b). (b, a)) (zip p y)"
    by (rule zip_commute)
  then have "filter (\<lambda>(a, b). a = b) (zip y p) =
      map (\<lambda>(a, b). (b, a)) (filter (\<lambda>(a, b). b = a) (zip p y))"
    by (simp add: filter_map comp_def case_prod_unfold)
  then have "length (filter (\<lambda>(a, b). a = b) (zip y p)) =
      length (filter (\<lambda>(a, b). b = a) (zip p y))"
    by simp
  moreover have "(\<lambda>(a :: 'a, b). b = a) = (\<lambda>(a, b). a = b)"
    by auto
  ultimately show ?thesis
    by (simp add: agreements_def)
qed

text \<open>
  Claim C10. For label sequences of equal length the accuracy of \<open>(p, y)\<close> is the
  accuracy of \<open>(y, p)\<close>, so passing the predictions in the ground-truth position, as the
  test does, does not change the value that is compared with \<open>1.0\<close>.
\<close>

theorem accuracy_symmetric:
  assumes "length p = length y"
  shows "accuracy p y = accuracy y p"
  using assms by (auto simp add: accuracy_def agreements_commute [of p y])

theorem accuracy_symmetric_witness:
  "length [1, 0, 0 :: nat] = length [1, 0, 1 :: nat] \<and>
   accuracy [1, 0, 0 :: nat] [1, 0, 1 :: nat] = accuracy [1, 0, 1 :: nat] [1, 0, 0 :: nat]"
proof -
  have h: "length [1, 0, 0 :: nat] = length [1, 0, 1 :: nat]"
    by simp
  show ?thesis
    by (intro conjI) (rule h, rule accuracy_symmetric [OF h])
qed

end
